theory Spec2Isabelle
  imports Complex_Main "HOL-Library.AList" "HOL-Library.Multiset"
begin

section \<open>Conventions of the embedding\<close>

text \<open>
  The workers are Python modules. Python floats are modelled by the reals: every result
  below is about the exact arithmetic the code describes, not about IEEE rounding, and
  no value is NaN unless a model says so explicitly. A Python \<open>dict\<close> is an association
  list in insertion order (\<open>map_of\<close> reads it, \<open>AList.update\<close> stores a key in place or
  appends it, \<open>AList.delete\<close> pops it), since the code iterates over \<open>items()\<close>.
  A raised exception is the \<open>Inl\<close> branch of a sum.
\<close>

datatype py_error =
  ValueError string
| ZeroDivisionError

section \<open>Compliance gate (compliance\_engine.py)\<close>

datatype check_status = PASS | WARNING | FAIL

datatype overall_status = OK | REVIEW | BLOCK

text \<open>The \<open>current\<close> and \<open>limit\<close> entries of a violation record are numbers in every
  check that this development embeds.\<close>

record violation =
  v_symbol :: string
  v_rule :: string
  v_current :: real
  v_limit :: real
  v_message :: string

record check_result =
  status :: check_status
  violations :: "violation list"
  warnings :: "violation list"

text \<open>\<open>ruleset['position_limits']\<close>.\<close>

record position_limits =
  max_single_position :: real
  min_position_size :: real
  max_short_position :: real

text \<open>One entry of \<open>portfolio_data['positions']\<close>. Only \<open>weight\<close> is read by the
  position-limits check; the simulated attributes (sector, country, beta, ...) live in
  the extension part of the record.\<close>

record position_data =
  weight :: real

text \<open>\<open>load_portfolio_data\<close>, restricted to the \<open>positions\<close> table it builds: one entry
  per item of the weights map, carrying that weight; \<open>attrs\<close> supplies the randomly drawn
  attributes of a symbol.\<close>

definition load_positions ::
  "(string \<Rightarrow> 'a) \<Rightarrow> (string \<times> real) list \<Rightarrow> (string \<times> 'a position_data_scheme) list" where
  "load_positions attrs weights =
     map (\<lambda>(symbol, w). (symbol, \<lparr>weight = w, \<dots> = attrs symbol\<rparr>)) weights"

text \<open>The body of the \<open>for symbol, data in positions.items()\<close> loop of
  \<open>check_position_limits\<close>: the three tests, in the source's order, each appending to
  \<open>violations\<close> or \<open>warnings\<close>.\<close>

definition position_step ::
  "position_limits \<Rightarrow> string \<times> 'a position_data_scheme \<Rightarrow> check_result \<Rightarrow> check_result" where
  "position_step lims p res =
     (let symbol = fst p; w = weight (snd p);
          max_single = max_single_position lims;
          min_position = min_position_size lims;
          max_short = max_short_position lims;
          r1 = (if \<bar>w\<bar> > max_single
                then res\<lparr>violations := violations res @
                       [\<lparr>v_symbol = symbol, v_rule = ''max_single_position'', v_current = w,
                         v_limit = max_single,
                         v_message = ''Position '' @ symbol @ '' exceeds maximum size limit''\<rparr>]\<rparr>
                else res);
          r2 = (if \<bar>w\<bar> > 0 \<and> \<bar>w\<bar> < min_position
                then r1\<lparr>warnings := warnings r1 @
                       [\<lparr>v_symbol = symbol, v_rule = ''min_position_size'', v_current = w,
                         v_limit = min_position,
                         v_message = ''Position '' @ symbol @ '' below minimum size threshold''\<rparr>]\<rparr>
                else r1);
          r3 = (if w < max_short
                then r2\<lparr>violations := violations r2 @
                       [\<lparr>v_symbol = symbol, v_rule = ''max_short_position'', v_current = w,
                         v_limit = max_short,
                         v_message = ''Short position '' @ symbol @ '' exceeds limit''\<rparr>]\<rparr>
                else r2)
      in r3)"

fun position_loop ::
  "position_limits \<Rightarrow> (string \<times> 'a position_data_scheme) list \<Rightarrow> check_result \<Rightarrow> check_result" where
  "position_loop lims [] res = res"
| "position_loop lims (p # ps) res = position_loop lims ps (position_step lims p res)"

definition check_position_limits ::
  "(string \<times> 'a position_data_scheme) list \<Rightarrow> position_limits \<Rightarrow> check_result" where
  "check_position_limits positions lims =
     (let results = position_loop lims positions \<lparr>status = PASS, violations = [], warnings = []\<rparr>
      in if violations results \<noteq> [] then results\<lparr>status := FAIL\<rparr>
         else if warnings results \<noteq> [] then results\<lparr>status := WARNING\<rparr>
         else results)"

text \<open>\<open>calculate_compliance_status\<close> over the \<open>check_results\<close> dictionary
  (check name \<open>\<rightarrow>\<close> result).\<close>

definition calculate_compliance_status :: "(string \<times> check_result) list \<Rightarrow> overall_status" where
  "calculate_compliance_status check_results =
     (let has_failures = list_ex (\<lambda>r. status r = FAIL) (map snd check_results);
          has_warnings = list_ex (\<lambda>r. status r = WARNING) (map snd check_results)
      in if has_failures then BLOCK else if has_warnings then REVIEW else OK)"

text \<open>\<open>run_pre_trade_checks\<close>: the position-limits result is stored first under
  \<open>'position_limits'\<close>; the eleven further checks read simulated (random) portfolio
  attributes, so their results are a parameter \<open>others\<close>, stored after it.\<close>

definition run_pre_trade_checks ::
  "(string \<Rightarrow> 'a) \<Rightarrow> (string \<times> real) list \<Rightarrow> position_limits \<Rightarrow>
   (string \<times> check_result) list \<Rightarrow> overall_status \<times> (string \<times> check_result) list" where
  "run_pre_trade_checks attrs portfolio_weights lims others =
     (let positions = load_positions attrs portfolio_weights;
          check_results =
            (''position_limits'', check_position_limits positions lims) # others
      in (calculate_compliance_status check_results, check_results))"

section \<open>Backtest portfolio (backtester.py)\<close>

text \<open>The simulation state, class \<open>Portfolio\<close>: \<open>positions\<close> maps a symbol to the number
  of shares held.\<close>

record portfolio =
  initial_capital :: real
  cash :: real
  positions :: "(string \<times> real) list"
  total_value :: real

text \<open>One entry of the trade log that \<open>rebalance\<close> returns.\<close>

record trade =
  t_symbol :: string
  t_shares :: real
  t_price :: real
  t_value :: real
  t_cost :: real

text \<open>\<open>d.get(k, 0)\<close> on a dictionary of numbers.\<close>

definition get0 :: "(string \<times> real) list \<Rightarrow> string \<Rightarrow> real" where
  "get0 d k = (case map_of d k of Some v \<Rightarrow> v | None \<Rightarrow> 0)"

text \<open>The valuation loop shared by \<open>rebalance\<close> (first loop) and \<open>update_value\<close>:
  start from cash and add \<open>shares * prices[symbol]\<close> for every held symbol that has a
  price; a held symbol without a price is skipped.\<close>

definition mark_to_market :: "real \<Rightarrow> (string \<times> real) list \<Rightarrow> (string \<times> real) list \<Rightarrow> real" where
  "mark_to_market c pos prices =
     fold (\<lambda>(symbol, shares) v.
             case map_of prices symbol of Some p \<Rightarrow> v + shares * p | None \<Rightarrow> v) pos c"

text \<open>The second loop of \<open>rebalance\<close>: target shares for every target symbol that has a
  price. Python's float division raises \<open>ZeroDivisionError\<close> on a zero price.\<close>

fun target_positions_loop ::
  "real \<Rightarrow> (string \<times> real) list \<Rightarrow> (string \<times> real) list \<Rightarrow> (string \<times> real) list
   \<Rightarrow> py_error + (string \<times> real) list" where
  "target_positions_loop current_value prices [] tp = Inr tp"
| "target_positions_loop current_value prices ((symbol, w) # tws) tp =
     (case map_of prices symbol of
        None \<Rightarrow> target_positions_loop current_value prices tws tp
      | Some p \<Rightarrow>
          if p = 0 then Inl ZeroDivisionError
          else target_positions_loop current_value prices tws
                 (AList.update symbol (current_value * w / p) tp))"

text \<open>The symbols the third loop visits:
  \<open>set(list(self.positions.keys()) + list(target_positions.keys()))\<close>. Python leaves the
  iteration order of a set unspecified; the model visits each symbol once, in the order
  \<open>remdups\<close> yields.\<close>

definition trade_symbols :: "(string \<times> real) list \<Rightarrow> (string \<times> real) list \<Rightarrow> string list" where
  "trade_symbols pos target_positions = remdups (map fst pos @ map fst target_positions)"

text \<open>The body of the third loop, on the state (portfolio, trade log). The transaction
  cost is taken from cash only inside \<open>if trade_value > 0\<close>; the logged \<open>cost\<close> field is
  computed for every trade.\<close>

definition rebalance_step ::
  "(string \<times> real) list \<Rightarrow> (string \<times> real) list \<Rightarrow> real \<Rightarrow> string
   \<Rightarrow> portfolio \<times> trade list \<Rightarrow> portfolio \<times> trade list" where
  "rebalance_step target_positions prices transaction_costs symbol st =
     (let pf = fst st; trades = snd st;
          current_shares = get0 (positions pf) symbol;
          target_shares = get0 target_positions symbol
      in if \<bar>target_shares - current_shares\<bar> > 1 / 10 ^ 6 then
           (let trade_shares = target_shares - current_shares;
                trade_value = trade_shares * get0 prices symbol;
                pf1 = (if trade_value > 0
                       then pf\<lparr>cash := cash pf - \<bar>trade_value\<bar> * transaction_costs\<rparr>
                       else pf);
                pf2 = (if target_shares = 0
                       then pf1\<lparr>positions := AList.delete symbol (positions pf1)\<rparr>
                       else pf1\<lparr>positions := AList.update symbol target_shares (positions pf1)\<rparr>);
                pf3 = pf2\<lparr>cash := cash pf2 - trade_value\<rparr>
            in (pf3, trades @
                  [\<lparr>t_symbol = symbol, t_shares = trade_shares, t_price = get0 prices symbol,
                    t_value = trade_value, t_cost = \<bar>trade_value\<bar> * transaction_costs\<rparr>]))
         else st)"

definition rebalance ::
  "portfolio \<Rightarrow> (string \<times> real) list \<Rightarrow> (string \<times> real) list \<Rightarrow> real
   \<Rightarrow> py_error + portfolio \<times> trade list" where
  "rebalance pf target_weights prices transaction_costs =
     (let current_value = mark_to_market (cash pf) (positions pf) prices
      in case target_positions_loop current_value prices target_weights [] of
           Inl e \<Rightarrow> Inl e
         | Inr target_positions \<Rightarrow>
             Inr (fold (rebalance_step target_positions prices transaction_costs)
                       (trade_symbols (positions pf) target_positions) (pf, [])))"

definition update_value :: "portfolio \<Rightarrow> (string \<times> real) list \<Rightarrow> portfolio" where
  "update_value pf prices = pf\<lparr>total_value := mark_to_market (cash pf) (positions pf) prices\<rparr>"

text \<open>Proof device: the loop state with the holding of \<open>s\<close> and the log entries of \<open>s\<close>
  erased.\<close>

definition without :: "string \<Rightarrow> portfolio \<times> trade list \<Rightarrow> portfolio \<times> trade list" where
  "without s st = ((fst st)\<lparr>positions := AList.delete s (positions (fst st))\<rparr>,
                   filter (\<lambda>t. t_symbol t \<noteq> s) (snd st))"

section \<open>Order slicing (order\_engine.py)\<close>

text \<open>A \<open>datetime\<close> is its number of microseconds since the epoch and a \<open>timedelta\<close> a
  number of microseconds, the resolution Python keeps exactly; quotients of durations
  are exact reals.\<close>

type_synonym datetime = int
type_synonym timedelta = int

definition timedelta_hours :: "int \<Rightarrow> timedelta" where
  "timedelta_hours h = h * 3600000000"

definition timedelta_minutes :: "int \<Rightarrow> timedelta" where
  "timedelta_minutes m = m * 60000000"

text \<open>\<open>td.total_seconds() / 3600\<close>.\<close>

definition hours :: "timedelta \<Rightarrow> real" where
  "hours td = real_of_int td / 1000000 / 3600"

text \<open>\<open>int(x)\<close> on a float truncates toward zero.\<close>

definition py_int :: "real \<Rightarrow> int" where
  "py_int x = (if x \<ge> 0 then \<lfloor>x\<rfloor> else \<lceil>x\<rceil>)"

text \<open>\<open>order_params\<close>: each key may be missing, and then \<open>.get\<close> supplies a default.\<close>

record order_params =
  op_start_time :: "datetime option"
  op_end_time :: "datetime option"
  op_slice_duration :: "timedelta option"

text \<open>One slice. \<open>sl_id\<close> is the number printed in \<open>slice_id\<close> (\<open>i + 1\<close>); the \<open>status\<close>
  entry is the constant \<open>'PENDING'\<close> and is left out.\<close>

record order_slice =
  sl_id :: nat
  sl_start :: datetime
  sl_end :: datetime
  sl_multiplier :: real
  sl_trades :: "(string \<times> real) list"

definition calculate_volume_multiplier :: "datetime \<Rightarrow> datetime \<Rightarrow> datetime \<Rightarrow> real" where
  "calculate_volume_multiplier slice_time start_time end_time =
     (let total_duration = hours (end_time - start_time);
          elapsed_hours = hours (slice_time - start_time)
      in if elapsed_hours < 1 \<or> elapsed_hours > total_duration - 1 then 3 / 2 else 7 / 10)"

text \<open>The parameter block both slicers start with: start, end, slice duration and
  \<open>num_slices = int(total_duration / slice_duration)\<close>; dividing by a zero duration
  raises. \<open>now\<close> stands for \<open>datetime.now()\<close>.\<close>

definition slicing_window ::
  "order_params \<Rightarrow> datetime \<Rightarrow> py_error + datetime \<times> datetime \<times> timedelta \<times> nat" where
  "slicing_window params now =
     (let start_time = (case op_start_time params of Some t \<Rightarrow> t | None \<Rightarrow> now);
          end_time = (case op_end_time params of Some t \<Rightarrow> t
                      | None \<Rightarrow> start_time + timedelta_hours 6);
          slice_duration = (case op_slice_duration params of Some d \<Rightarrow> d
                            | None \<Rightarrow> timedelta_minutes 30);
          total_duration = end_time - start_time
      in if slice_duration = 0 then Inl ZeroDivisionError
         else Inr (start_time, end_time, slice_duration,
                   nat (py_int (real_of_int total_duration / real_of_int slice_duration))))"

text \<open>The inner loop \<open>for symbol, trade_value in required_trades.items()\<close>: \<open>share\<close>
  computes the slice's part of a trade, and parts of at most 100 in magnitude are not
  stored.\<close>

definition slice_trades :: "(real \<Rightarrow> real) \<Rightarrow> (string \<times> real) list \<Rightarrow> (string \<times> real) list" where
  "slice_trades share required_trades =
     fold (\<lambda>(symbol, trade_value) tr.
             let slice_trade_value = share trade_value
             in if \<bar>slice_trade_value\<bar> > 100 then AList.update symbol slice_trade_value tr
                else tr)
          required_trades []"

definition generate_vwap_slices ::
  "(string \<times> real) list \<Rightarrow> order_params \<Rightarrow> datetime \<Rightarrow> py_error + order_slice list" where
  "generate_vwap_slices required_trades params now =
     (case slicing_window params now of
        Inl e \<Rightarrow> Inl e
      | Inr (start_time, end_time, slice_duration, num_slices) \<Rightarrow>
          Inr (map (\<lambda>i.
                 let slice_start = start_time + int i * slice_duration;
                     slice_end = slice_start + slice_duration;
                     volume_multiplier =
                       calculate_volume_multiplier slice_start start_time end_time
                 in \<lparr>sl_id = i + 1, sl_start = slice_start, sl_end = slice_end,
                     sl_multiplier = volume_multiplier,
                     sl_trades = slice_trades
                       (\<lambda>trade_value. trade_value * volume_multiplier / real num_slices)
                       required_trades\<rparr>)
               [0..<num_slices]))"

definition generate_twap_slices ::
  "(string \<times> real) list \<Rightarrow> order_params \<Rightarrow> datetime \<Rightarrow> py_error + order_slice list" where
  "generate_twap_slices required_trades params now =
     (case slicing_window params now of
        Inl e \<Rightarrow> Inl e
      | Inr (start_time, end_time, slice_duration, num_slices) \<Rightarrow>
          Inr (map (\<lambda>i.
                 let slice_start = start_time + int i * slice_duration;
                     slice_end = slice_start + slice_duration
                 in \<lparr>sl_id = i + 1, sl_start = slice_start, sl_end = slice_end,
                     sl_multiplier = 1,
                     sl_trades = slice_trades
                       (\<lambda>trade_value. trade_value / real num_slices) required_trades\<rparr>)
               [0..<num_slices]))"



section \<open>Empirical quantiles (NumPy and pandas, default \<open>linear\<close> method)\<close>




section \<open>Risk engine (risk\_engine.py)\<close>



section \<open>Factor engine (factor\_engine.py)\<close>








section \<open>Covariance shrinkage (portfolio\_optimizer.py)\<close>

text \<open>A matrix is the list of its rows. The element-wise operations of NumPy and
  pandas are \<open>mat_binop\<close>; the covariance frame is square, so shapes agree.\<close>

type_synonym matrix = "real list list"

definition mat_binop :: "(real \<Rightarrow> real \<Rightarrow> real) \<Rightarrow> matrix \<Rightarrow> matrix \<Rightarrow> matrix" where
  "mat_binop f A B = map2 (map2 f) A B"

definition mat_scale :: "real \<Rightarrow> matrix \<Rightarrow> matrix" where
  "mat_scale c A = map (map (\<lambda>x. c * x)) A"

text \<open>\<open>np.diag\<close>, \<open>np.outer\<close>, \<open>np.triu_indices(n, k=1)\<close> (the pairs \<open>i < j\<close>, row by row),
  \<open>np.full\<close> and \<open>np.fill_diagonal\<close>.\<close>

definition np_diag :: "matrix \<Rightarrow> real list" where
  "np_diag A = map (\<lambda>i. A ! i ! i) [0..<length A]"

definition np_outer :: "real list \<Rightarrow> real list \<Rightarrow> matrix" where
  "np_outer u v = map (\<lambda>a. map (\<lambda>b. a * b) v) u"

definition triu_indices :: "nat \<Rightarrow> (nat \<times> nat) list" where
  "triu_indices n = concat (map (\<lambda>i. map (\<lambda>j. (i, j)) [i + 1..<n]) [0..<n])"

definition np_full :: "nat \<Rightarrow> real \<Rightarrow> matrix" where
  "np_full n v = replicate n (replicate n v)"

definition fill_diagonal :: "matrix \<Rightarrow> real \<Rightarrow> matrix" where
  "fill_diagonal A v = map (\<lambda>i. (A ! i)[i := v]) [0..<length A]"

text \<open>\<open>np.mean\<close>. Of no values NumPy returns NaN; that happens here only for fewer than two
  assets, where \<open>fill_diagonal\<close> overwrites every entry made from it, so the value the
  model gives it (0) never reaches the result.\<close>

definition np_mean :: "real list \<Rightarrow> real" where
  "np_mean xs = sum_list xs / real (length xs)"

definition apply_shrinkage :: "matrix \<Rightarrow> string \<Rightarrow> matrix" where
  "apply_shrinkage covariance_matrix shrinkage_target =
     (if shrinkage_target = ''constant_correlation'' then
        (let n_assets = length covariance_matrix;
             std_devs = map sqrt (np_diag covariance_matrix);
             correlation_matrix =
               mat_binop (/) covariance_matrix (np_outer std_devs std_devs);
             off_diagonal_correlations =
               map (\<lambda>(i, j). correlation_matrix ! i ! j) (triu_indices n_assets);
             target_correlation = np_mean off_diagonal_correlations;
             target_matrix = fill_diagonal (np_full n_assets target_correlation) 1;
             target_covariance = mat_binop (*) target_matrix (np_outer std_devs std_devs);
             shrinkage_param = 3 / 10;
             shrunk_covariance =
               mat_binop (+) (mat_scale (1 - shrinkage_param) covariance_matrix)
                             (mat_scale shrinkage_param target_covariance)
         in shrunk_covariance)
      else covariance_matrix)"

text \<open>The specification's description of the target, read entry by entry: the average
  of the correlations \<open>cov i j / (sd i * sd j)\<close> over the pairs \<open>i < j\<close>, and the matrix
  with the variances on the diagonal and that one correlation, rescaled by the standard
  deviations, elsewhere.\<close>

definition spec_average_correlation :: "matrix \<Rightarrow> real" where
  "spec_average_correlation C =
     (\<Sum>i = 0..<length C. \<Sum>j = i + 1..<length C.
         C ! i ! j / (sqrt (C ! i ! i) * sqrt (C ! j ! j)))
     / (real (length C) * (real (length C) - 1) / 2)"

definition spec_target :: "matrix \<Rightarrow> nat \<Rightarrow> nat \<Rightarrow> real" where
  "spec_target C i j =
     (if i = j then C ! i ! i
      else spec_average_correlation C * (sqrt (C ! i ! i) * sqrt (C ! j ! j)))"

section \<open>Factor dispatch (factor\_engine.py)\<close>

text \<open>The seven factor routines work on a pandas frame and, for two of them, on random
  draws; they are parameters of the model. Each returns a series or raises.\<close>

record ('d, 'c, 's) factor_routines =
  compute_momentum_factor :: "'d \<Rightarrow> 'c \<Rightarrow> py_error + 's"
  compute_value_factor :: "'d \<Rightarrow> 'c \<Rightarrow> py_error + 's"
  compute_quality_factor :: "'d \<Rightarrow> 'c \<Rightarrow> py_error + 's"
  compute_growth_factor :: "'d \<Rightarrow> 'c \<Rightarrow> py_error + 's"
  compute_low_vol_factor :: "'d \<Rightarrow> 'c \<Rightarrow> py_error + 's"
  compute_size_factor :: "'d \<Rightarrow> 'c \<Rightarrow> py_error + 's"
  compute_esg_factor :: "'d \<Rightarrow> 'c \<Rightarrow> py_error + 's"

definition compute_factor ::
  "('d, 'c, 's) factor_routines \<Rightarrow> 'd \<Rightarrow> string \<Rightarrow> 'c \<Rightarrow> py_error + 's" where
  "compute_factor rt data factor_name config =
     (if factor_name = ''momentum'' then compute_momentum_factor rt data config
      else if factor_name = ''value'' then compute_value_factor rt data config
      else if factor_name = ''quality'' then compute_quality_factor rt data config
      else if factor_name = ''growth'' then compute_growth_factor rt data config
      else if factor_name = ''low_vol'' then compute_low_vol_factor rt data config
      else if factor_name = ''size'' then compute_size_factor rt data config
      else if factor_name = ''esg'' then compute_esg_factor rt data config
      else Inl (ValueError (''Unknown factor: '' @ factor_name)))"

text \<open>The loop of \<open>compute_signals\<close> over \<open>recipe['factors'].items()\<close>: the first factor
  that raises ends it.\<close>

fun compute_factors_loop ::
  "('d, 'c, 's) factor_routines \<Rightarrow> 'd \<Rightarrow> (string \<times> 'c) list \<Rightarrow> (string \<times> 's) list
   \<Rightarrow> py_error + (string \<times> 's) list" where
  "compute_factors_loop rt data [] factor_signals = Inr factor_signals"
| "compute_factors_loop rt data ((factor_name, factor_config) # rest) factor_signals =
     (case compute_factor rt data factor_name factor_config of
        Inl e \<Rightarrow> Inl e
      | Inr sig \<Rightarrow>
          compute_factors_loop rt data rest (AList.update factor_name sig factor_signals))"

text \<open>\<open>compute_signals\<close>: the pipeline, combination and diagnostics that follow the loop
  are the parameter \<open>finish\<close>. The \<open>except\<close> clause logs and re-raises, so an error of the
  body is the error of the task.\<close>

definition compute_signals ::
  "('d, 'c, 's) factor_routines \<Rightarrow> ((string \<times> 's) list \<Rightarrow> py_error + 'r) \<Rightarrow> 'd
   \<Rightarrow> (string \<times> 'c) list \<Rightarrow> py_error + 'r" where
  "compute_signals rt finish data factors =
     (case compute_factors_loop rt data factors [] of
        Inl e \<Rightarrow> Inl e
      | Inr factor_signals \<Rightarrow> finish factor_signals)"

text \<open>The factor names the specification lists as supported.\<close>

definition supported_factors :: "string list" where
  "supported_factors =
     [''momentum'', ''value'', ''quality'', ''growth'', ''low_vol'', ''size'', ''esg'']"

section \<open>Compliance: an oversized position blocks the portfolio\<close>

lemma position_step_violations_mono:
  "violations res \<noteq> [] \<Longrightarrow> violations (position_step lims p res) \<noteq> []"
  by (simp add: position_step_def Let_def)

lemma position_loop_violations_mono:
  "violations res \<noteq> [] \<Longrightarrow> violations (position_loop lims ps res) \<noteq> []"
  by (induction ps arbitrary: res) (simp_all add: position_step_violations_mono)

lemma position_step_flags:
  "\<bar>weight (snd p)\<bar> > max_single_position lims \<Longrightarrow> violations (position_step lims p res) \<noteq> []"
  by (simp add: position_step_def Let_def)

lemma position_loop_flags:
  "(s, d) \<in> set ps \<Longrightarrow> \<bar>weight d\<bar> > max_single_position lims \<Longrightarrow>
   violations (position_loop lims ps res) \<noteq> []"
proof (induction ps arbitrary: res)
  case Nil
  then show ?case by simp
next
  case (Cons p ps)
  show ?case
  proof (cases "p = (s, d)")
    case True
    with Cons.prems have "violations (position_step lims p res) \<noteq> []"
      by (simp add: position_step_flags)
    then show ?thesis by (simp add: position_loop_violations_mono)
  next
    case False
    with Cons.prems have "(s, d) \<in> set ps" by simp
    with Cons.IH Cons.prems show ?thesis by simp
  qed
qed

lemma check_position_limits_FAIL:
  assumes "(s, d) \<in> set ps" and "\<bar>weight d\<bar> > max_single_position lims"
  shows "status (check_position_limits ps lims) = FAIL"
  using position_loop_flags [OF assms]
  by (simp add: check_position_limits_def Let_def)

lemma load_positions_mem:
  "(s, w) \<in> set weights \<Longrightarrow> (s, \<lparr>weight = w, \<dots> = attrs s\<rparr>) \<in> set (load_positions attrs weights)"
  by (force simp: load_positions_def)

lemma compliance_status_BLOCK:
  "(name, r) \<in> set check_results \<Longrightarrow> status r = FAIL \<Longrightarrow>
   calculate_compliance_status check_results = BLOCK"
  by (force simp: calculate_compliance_status_def Let_def list_ex_iff)

text \<open>
  Claim C1. For every portfolio weights map and every ruleset, if some symbol's absolute
  weight strictly exceeds \<open>max_single_position\<close>, the position-limits check reports FAIL
  and the overall status computed from the check results is BLOCK, whatever the other
  checks returned.
\<close>

theorem C1_oversized_position_blocks:
  assumes "(s, w) \<in> set portfolio_weights" and "\<bar>w\<bar> > max_single_position lims"
  shows "status (check_position_limits (load_positions attrs portfolio_weights) lims) = FAIL
       \<and> fst (run_pre_trade_checks attrs portfolio_weights lims others) = BLOCK"
proof -
  let ?r = "check_position_limits (load_positions attrs portfolio_weights) lims"
  have mem: "(s, \<lparr>weight = w, \<dots> = attrs s\<rparr>) \<in> set (load_positions attrs portfolio_weights)"
    using assms(1) by (rule load_positions_mem)
  have fail: "status ?r = FAIL"
    using check_position_limits_FAIL [OF mem] assms(2) by simp
  have "calculate_compliance_status ((''position_limits'', ?r) # others) = BLOCK"
    using fail by (intro compliance_status_BLOCK [where name = "''position_limits''" and r = ?r]) simp_all
  then show ?thesis using fail by (simp add: run_pre_trade_checks_def Let_def)
qed

theorem C1_witness:
  "(''B'', 4/10) \<in> set [(''A'', 4/10), (''B'', 4/10), (''C'', 2/10 :: real)]
   \<and> \<bar>4/10 :: real\<bar> > max_single_position
        \<lparr>max_single_position = 3/10, min_position_size = 1/1000, max_short_position = 0\<rparr>
   \<and> status (check_position_limits
        (load_positions (\<lambda>_. ()) [(''A'', 4/10), (''B'', 4/10), (''C'', 2/10)])
        \<lparr>max_single_position = 3/10, min_position_size = 1/1000, max_short_position = 0\<rparr>) = FAIL
   \<and> fst (run_pre_trade_checks (\<lambda>_. ()) [(''A'', 4/10), (''B'', 4/10), (''C'', 2/10)]
        \<lparr>max_single_position = 3/10, min_position_size = 1/1000, max_short_position = 0\<rparr>
        []) = BLOCK"
proof -
  have h1: "(''B'', 4/10) \<in> set [(''A'', 4/10), (''B'', 4/10), (''C'', 2/10 :: real)]" by simp
  have h2: "\<bar>4/10 :: real\<bar> > max_single_position
        \<lparr>max_single_position = 3/10, min_position_size = 1/1000, max_short_position = 0\<rparr>" by simp
  show ?thesis
    using h1 h2 C1_oversized_position_blocks [OF h1 h2, of "\<lambda>_. ()" "[]"] by blast
qed

section \<open>Backtest: transaction costs in the rebalance step\<close>

text \<open>What one executed trade does to cash: the trade value always, the cost only when
  the trade value is positive; the logged cost does not depend on the sign.\<close>

lemma rebalance_step_cash:
  assumes "\<bar>get0 target_positions symbol - get0 (positions pf) symbol\<bar> > 1 / 10 ^ 6"
      and "trade_value =
             (get0 target_positions symbol - get0 (positions pf) symbol) * get0 prices symbol"
  shows "cash (fst (rebalance_step target_positions prices transaction_costs symbol (pf, trade_log)))
           = cash pf - trade_value
             - (if trade_value > 0 then \<bar>trade_value\<bar> * transaction_costs else 0)"
    and "t_cost (last (snd (rebalance_step target_positions prices transaction_costs symbol
                              (pf, trade_log))))
           = \<bar>trade_value\<bar> * transaction_costs"
  using assms by (simp_all add: rebalance_step_def Let_def)

text \<open>
  Claim C2. Every executed trade, buy or sell, is charged \<open>|trade value| * cost_rate\<close>,
  deducted from cash regardless of direction. The code deducts the cost only under
  \<open>if trade_value > 0\<close>: selling 5 of 10 shares at price 10 with a rate of 10 bps credits
  the full 50 to cash, although the trade log records a cost of 0.05 for that very trade.
\<close>

theorem C2_sell_not_charged:
  "rebalance \<lparr>initial_capital = 100, cash = 0, positions = [(''A'', 10)], total_value = 100\<rparr>
        [(''A'', 1/2)] [(''A'', 10)] (1/1000)
   = Inr (\<lparr>initial_capital = 100, cash = 50, positions = [(''A'', 5)], total_value = 100\<rparr>,
          [\<lparr>t_symbol = ''A'', t_shares = -5, t_price = 10, t_value = -50, t_cost = 1/20\<rparr>])"
  by (simp add: rebalance_def mark_to_market_def trade_symbols_def rebalance_step_def get0_def Let_def)

section \<open>Backtest: a held symbol without a price\<close>

lemma get0_delete_other: "k \<noteq> s \<Longrightarrow> get0 (AList.delete s d) k = get0 d k"
  by (simp add: get0_def)

lemma get0_absent: "map_of d k = None \<Longrightarrow> get0 d k = 0"
  by (simp add: get0_def)

lemma without_step_other:
  assumes "k \<noteq> s"
  shows "without s (rebalance_step tp prices tc k st) = rebalance_step tp prices tc k (without s st)"
  using assms
  by (simp add: rebalance_step_def without_def Let_def get0_delete_other
                AList.delete_update AList.delete_twist)

lemma without_step_same:
  assumes "map_of tp s = None" and "map_of prices s = None"
  shows "without s (rebalance_step tp prices tc s st) = without s st"
  using assms
  by (simp add: rebalance_step_def without_def Let_def get0_absent AList.delete_idem)

lemma without_fold:
  assumes "map_of tp s = None" and "map_of prices s = None"
  shows "without s (fold (rebalance_step tp prices tc) syms st)
       = fold (rebalance_step tp prices tc) (removeAll s syms) (without s st)"
proof (induction syms arbitrary: st)
  case Nil
  show ?case by simp
next
  case (Cons k syms)
  show ?case
  proof (cases "k = s")
    case True
    then show ?thesis using Cons.IH [of "rebalance_step tp prices tc s st"]
      by (simp add: without_step_same [OF assms])
  next
    case False
    then show ?thesis using Cons.IH [of "rebalance_step tp prices tc k st"]
      by (simp add: without_step_other)
  qed
qed

lemma step_other_lookup:
  "k \<noteq> s \<Longrightarrow> map_of (positions (fst (rebalance_step tp prices tc k st))) s
               = map_of (positions (fst st)) s"
  by (simp add: rebalance_step_def Let_def AList.update_conv' AList.delete_conv')

lemma step_same_absent:
  "map_of tp s = None \<Longrightarrow> map_of (positions (fst st)) s = None \<Longrightarrow>
   rebalance_step tp prices tc s st = st"
  by (simp add: rebalance_step_def Let_def get0_absent)

lemma step_same_removes:
  assumes "map_of tp s = None" and "map_of prices s = None"
      and "map_of (positions (fst st)) s = Some sh" and "\<bar>sh\<bar> > 1 / 10 ^ 6"
  shows "rebalance_step tp prices tc s st =
           ((fst st)\<lparr>positions := AList.delete s (positions (fst st))\<rparr>,
            snd st @ [\<lparr>t_symbol = s, t_shares = - sh, t_price = 0, t_value = 0, t_cost = 0\<rparr>])"
  using assms
  by (simp add: rebalance_step_def Let_def get0_def)

lemma fold_absent_stays:
  "map_of tp s = None \<Longrightarrow> map_of (positions (fst st)) s = None \<Longrightarrow>
   map_of (positions (fst (fold (rebalance_step tp prices tc) syms st))) s = None"
proof (induction syms arbitrary: st)
  case Nil
  then show ?case by simp
next
  case (Cons k syms)
  show ?case
  proof (cases "k = s")
    case True
    with Cons show ?thesis by (simp add: step_same_absent)
  next
    case False
    with Cons.prems have "map_of (positions (fst (rebalance_step tp prices tc k st))) s = None"
      by (simp add: step_other_lookup)
    with Cons.IH Cons.prems(1) show ?thesis by simp
  qed
qed

lemma step_log_grows: "set (snd st) \<subseteq> set (snd (rebalance_step tp prices tc k st))"
  by (auto simp: rebalance_step_def Let_def)

lemma fold_log_grows: "set (snd st) \<subseteq> set (snd (fold (rebalance_step tp prices tc) syms st))"
proof (induction syms arbitrary: st)
  case Nil
  show ?case by simp
next
  case (Cons k syms)
  have "set (snd st) \<subseteq> set (snd (rebalance_step tp prices tc k st))"
    by (rule step_log_grows)
  also have "\<dots> \<subseteq> set (snd (fold (rebalance_step tp prices tc) syms (rebalance_step tp prices tc k st)))"
    by (rule Cons.IH)
  finally show ?case by simp
qed

lemma fold_removes:
  assumes "map_of tp s = None" and "map_of prices s = None" and "\<bar>sh\<bar> > 1 / 10 ^ 6"
  shows "s \<in> set syms \<Longrightarrow> map_of (positions (fst st)) s = Some sh \<Longrightarrow>
         map_of (positions (fst (fold (rebalance_step tp prices tc) syms st))) s = None
       \<and> \<lparr>t_symbol = s, t_shares = - sh, t_price = 0, t_value = 0, t_cost = 0\<rparr>
           \<in> set (snd (fold (rebalance_step tp prices tc) syms st))"
proof (induction syms arbitrary: st)
  case Nil
  then show ?case by simp
next
  case (Cons k syms)
  show ?case
  proof (cases "k = s")
    case True
    let ?st1 = "rebalance_step tp prices tc s st"
    have eq: "?st1 = ((fst st)\<lparr>positions := AList.delete s (positions (fst st))\<rparr>,
            snd st @ [\<lparr>t_symbol = s, t_shares = - sh, t_price = 0, t_value = 0, t_cost = 0\<rparr>])"
      using step_same_removes [OF assms(1,2) Cons.prems(2) assms(3)] .
    have gone: "map_of (positions (fst ?st1)) s = None"
      by (simp add: eq AList.delete_conv')
    have logged: "\<lparr>t_symbol = s, t_shares = - sh, t_price = 0, t_value = 0, t_cost = 0\<rparr> \<in> set (snd ?st1)"
      by (simp add: eq)
    from fold_absent_stays [OF assms(1) gone] logged fold_log_grows [of ?st1 tp prices tc syms]
    show ?thesis using True by auto
  next
    case False
    with Cons.prems have "s \<in> set syms"
      and "map_of (positions (fst (rebalance_step tp prices tc k st))) s = Some sh"
      by (simp_all add: step_other_lookup)
    from Cons.IH [OF this] show ?thesis by simp
  qed
qed

lemma target_positions_loop_absent:
  "map_of prices s = None \<Longrightarrow> target_positions_loop cv prices tws tp = Inr tp' \<Longrightarrow>
   map_of tp' s = map_of tp s"
proof (induction tws arbitrary: tp)
  case Nil
  then show ?case by simp
next
  case (Cons a tws)
  obtain symbol w where a: "a = (symbol, w)" by (cases a)
  show ?case
  proof (cases "map_of prices symbol")
    case None
    with Cons a show ?thesis by simp
  next
    case (Some p)
    with Cons.prems a have ne: "symbol \<noteq> s" by auto
    from Cons.prems Some a have "p \<noteq> 0"
      and run: "target_positions_loop cv prices tws (AList.update symbol (cv * w / p) tp) = Inr tp'"
      by (auto split: if_splits)
    from Cons.IH [OF Cons.prems(1) run] ne show ?thesis
      by (simp add: AList.update_conv')
  qed
qed

lemma target_positions_loop_total:
  "0 \<notin> snd ` set prices \<Longrightarrow> \<exists>tp'. target_positions_loop cv prices tws tp = Inr tp'"
proof (induction tws arbitrary: tp)
  case Nil
  show ?case by simp
next
  case (Cons a tws)
  obtain symbol w where a: "a = (symbol, w)" by (cases a)
  show ?case
  proof (cases "map_of prices symbol")
    case None
    with Cons a show ?thesis by simp
  next
    case (Some p)
    then have "(symbol, p) \<in> set prices" by (rule map_of_SomeD)
    with Cons.prems have "p \<noteq> 0" by force
    with Cons a Some show ?thesis by simp
  qed
qed

lemma mark_to_market_unpriced:
  "map_of prices s = None \<Longrightarrow>
   mark_to_market c (AList.delete s pos) prices = mark_to_market c pos prices"
  unfolding mark_to_market_def
  by (induction pos arbitrary: c) (auto simp: AList.delete_eq)

lemma remdups_removeAll: "remdups (removeAll s xs) = removeAll s (remdups xs)"
  by (simp add: removeAll_filter_not_eq remdups_filter)

lemma trade_symbols_delete:
  assumes "map_of tp s = None"
  shows "trade_symbols (AList.delete s pos) tp = removeAll s (trade_symbols pos tp)"
proof -
  from assms have "s \<notin> set (map fst tp)" by (simp add: map_of_eq_None_iff)
  then have "removeAll s (map fst tp) = map fst tp" by simp
  then have "map fst (AList.delete s pos) @ map fst tp = removeAll s (map fst pos @ map fst tp)"
    by (simp add: AList.delete_keys)
  then have "trade_symbols (AList.delete s pos) tp = remdups (removeAll s (map fst pos @ map fst tp))"
    unfolding trade_symbols_def by (rule arg_cong)
  then show ?thesis by (simp only: remdups_removeAll trade_symbols_def)
qed

text \<open>
  Claim C9, as stated: every held symbol that is absent from the prices map is removed by
  the rebalance. A holding of at most \<open>1e-6\<close> shares is below the "avoid tiny trades" guard
  and stays in the portfolio.
\<close>

theorem C9_tiny_holding_counterexample:
  "map_of (positions \<lparr>initial_capital = 100, cash = 0, positions = [(''A'', 1/2000000)],
                      total_value = 100\<rparr>) ''A'' = Some (1/2000000)
   \<and> map_of ([] :: (string \<times> real) list) ''A'' = None
   \<and> rebalance \<lparr>initial_capital = 100, cash = 0, positions = [(''A'', 1/2000000)],
                 total_value = 100\<rparr> [] [] (1/1000)
     = Inr (\<lparr>initial_capital = 100, cash = 0, positions = [(''A'', 1/2000000)],
             total_value = 100\<rparr>, [])"
  by (simp add: rebalance_def mark_to_market_def trade_symbols_def rebalance_step_def get0_def Let_def)

text \<open>
  Claim C9, amended. For every held symbol \<open>s\<close> that is absent from the prices map and
  whose holding exceeds \<open>1e-6\<close> shares in magnitude, the rebalance returns normally (no
  price being zero), the position is gone afterwards, the log holds a trade for it at
  price 0, value 0 and cost 0, and the resulting portfolio is exactly the one the
  rebalance produces from the portfolio that never held \<open>s\<close>: cash is credited nothing
  for the dropped shares.
\<close>

theorem C9_unpriced_holding_dropped:
  assumes held: "map_of (positions pf) s = Some sh"
      and big: "\<bar>sh\<bar> > 1 / 10 ^ 6"
      and absent: "map_of prices s = None"
      and nonzero: "0 \<notin> snd ` set prices"
  shows "\<exists>pf' trades.
           rebalance pf target_weights prices transaction_costs = Inr (pf', trades)
         \<and> map_of (positions pf') s = None
         \<and> \<lparr>t_symbol = s, t_shares = - sh, t_price = 0, t_value = 0, t_cost = 0\<rparr> \<in> set trades
         \<and> rebalance (pf\<lparr>positions := AList.delete s (positions pf)\<rparr>)
             target_weights prices transaction_costs
           = Inr (pf', filter (\<lambda>t. t_symbol t \<noteq> s) trades)"
proof -
  let ?cv = "mark_to_market (cash pf) (positions pf) prices"
  obtain tp where tp: "target_positions_loop ?cv prices target_weights [] = Inr tp"
    using target_positions_loop_total [OF nonzero] by blast
  have tp_s: "map_of tp s = None"
    using target_positions_loop_absent [OF absent tp] by simp
  let ?f = "rebalance_step tp prices transaction_costs"
  let ?syms = "trade_symbols (positions pf) tp"
  let ?res = "fold ?f ?syms (pf, [])"
  have run: "rebalance pf target_weights prices transaction_costs = Inr (fst ?res, snd ?res)"
    by (simp add: rebalance_def Let_def tp)
  have "s \<in> set ?syms"
    using held by (auto simp: trade_symbols_def dest: map_of_SomeD intro: rev_image_eqI)
  from fold_removes [OF tp_s absent big this, of "(pf, [])" transaction_costs] held
  have gone: "map_of (positions (fst ?res)) s = None"
    and logged: "\<lparr>t_symbol = s, t_shares = - sh, t_price = 0, t_value = 0, t_cost = 0\<rparr> \<in> set (snd ?res)"
    by simp_all
  have "without s ?res = fold ?f (removeAll s ?syms) (without s (pf, []))"
    by (rule without_fold [OF tp_s absent])
  moreover have "without s ?res = (fst ?res, filter (\<lambda>t. t_symbol t \<noteq> s) (snd ?res))"
    using gone by (simp add: without_def map_of_eq_None_iff)
  ultimately have twin_fold:
    "fold ?f (trade_symbols (AList.delete s (positions pf)) tp)
          (pf\<lparr>positions := AList.delete s (positions pf)\<rparr>, [])
     = (fst ?res, filter (\<lambda>t. t_symbol t \<noteq> s) (snd ?res))"
    by (simp add: trade_symbols_delete [OF tp_s] without_def)
  have twin: "rebalance (pf\<lparr>positions := AList.delete s (positions pf)\<rparr>)
                target_weights prices transaction_costs
              = Inr (fst ?res, filter (\<lambda>t. t_symbol t \<noteq> s) (snd ?res))"
    by (simp add: rebalance_def Let_def mark_to_market_unpriced [OF absent] tp twin_fold)
  from run gone logged twin show ?thesis by blast
qed


theorem C9_witness:
  "map_of (positions \<lparr>initial_capital = 1000, cash = 900, positions = [(''A'', 10), (''B'', 5)],
                      total_value = 1100\<rparr>) ''A'' = Some 10
   \<and> \<bar>10 :: real\<bar> > 1 / 10 ^ 6
   \<and> map_of [(''B'', 20 :: real)] ''A'' = None
   \<and> 0 \<notin> snd ` set [(''B'', 20 :: real)]
   \<and> (\<exists>pf' trades.
         rebalance \<lparr>initial_capital = 1000, cash = 900, positions = [(''A'', 10), (''B'', 5)],
                    total_value = 1100\<rparr> [(''B'', 1)] [(''B'', 20)] (1/1000) = Inr (pf', trades)
       \<and> map_of (positions pf') ''A'' = None
       \<and> \<lparr>t_symbol = ''A'', t_shares = - 10, t_price = 0, t_value = 0, t_cost = 0\<rparr> \<in> set trades
       \<and> rebalance (\<lparr>initial_capital = 1000, cash = 900, positions = [(''A'', 10), (''B'', 5)],
                    total_value = 1100\<rparr>\<lparr>positions := AList.delete ''A'' [(''A'', 10), (''B'', 5)]\<rparr>)
            [(''B'', 1)] [(''B'', 20)] (1/1000)
          = Inr (pf', filter (\<lambda>t. t_symbol t \<noteq> ''A'') trades))"
proof -
  let ?pf = "\<lparr>initial_capital = 1000, cash = 900, positions = [(''A'', 10), (''B'', 5 :: real)],
              total_value = 1100\<rparr>"
  have h1: "map_of (positions ?pf) ''A'' = Some 10" by simp
  have h2: "\<bar>10 :: real\<bar> > 1 / 10 ^ 6" by simp
  have h3: "map_of [(''B'', 20 :: real)] ''A'' = None" by simp
  have h4: "0 \<notin> snd ` set [(''B'', 20 :: real)]" by simp
  show ?thesis
    using h1 h2 h3 h4
      C9_unpriced_holding_dropped [OF h1 h2 h3 h4, of "[(''B'', 1)]" "1/1000"]
    by simp
qed

section \<open>Order slicing: what the VWAP slices add up to\<close>

lemmas upt_numeral = upt_rec [of _ "numeral _"]







section \<open>Order slicing: the four-slice scenario\<close>

text \<open>Whenever the window yields four slices and the second slice gets the low
  multiplier, so does the last one: its start is never later than one hour before the
  end, and the test \<open>elapsed_hours > total_duration - 1\<close> is strict.\<close>

lemma vwap_four_slices_last_low:
  assumes win: "slicing_window params now = Inr (start_time, end_time, slice_duration, 4)"
      and inner: "calculate_volume_multiplier (start_time + 1 * slice_duration) start_time end_time = 7 / 10"
  shows "calculate_volume_multiplier (start_time + 3 * slice_duration) start_time end_time = 7 / 10"
proof -
  let ?T = "real_of_int (end_time - start_time)"
  let ?d = "real_of_int slice_duration"
  from win have d0: "slice_duration \<noteq> 0"
    and n: "nat (py_int (?T / ?d)) = 4"
    by (auto simp: slicing_window_def Let_def split: if_splits option.splits)
  from inner have d1: "hours slice_duration \<ge> 1"
    and d2: "hours slice_duration \<le> hours (end_time - start_time) - 1"
    by (auto simp: calculate_volume_multiplier_def Let_def split: if_splits)
  from d1 have dpos: "?d > 0" by (simp add: hours_def)
  from n have "py_int (?T / ?d) = 4" by linarith
  then have "4 \<le> ?T / ?d"
    by (auto simp: py_int_def split: if_splits) linarith+
  with dpos have "4 * ?d \<le> ?T" by (simp add: pos_le_divide_eq)
  then have T4: "4 * hours slice_duration \<le> hours (end_time - start_time)"
    by (simp add: hours_def)
  have h3: "hours (3 * slice_duration) = 3 * hours slice_duration"
    by (simp add: hours_def)
  show ?thesis
    using d1 T4 by (simp add: calculate_volume_multiplier_def Let_def h3)
qed

text \<open>
  Claim C7. A single-symbol trade of 100000 in four one-hour slices: TWAP gives four
  slices of 25000; VWAP should give outer slices larger than the inner ones. The code
  gives 37500 for the first slice and 17500 for each of the other three: the last slice,
  which covers the final hour, gets the low multiplier.
\<close>

theorem C7_four_slice_scenario:
  "map_sum id (map sl_trades) (generate_twap_slices [(''A'', 100000)]
      \<lparr>op_start_time = Some 0, op_end_time = Some (timedelta_hours 4),
       op_slice_duration = Some (timedelta_hours 1)\<rparr> 0)
    = Inr [[(''A'', 25000)], [(''A'', 25000)], [(''A'', 25000)], [(''A'', 25000)]]
  \<and> map_sum id (map sl_trades) (generate_vwap_slices [(''A'', 100000)]
      \<lparr>op_start_time = Some 0, op_end_time = Some (timedelta_hours 4),
       op_slice_duration = Some (timedelta_hours 1)\<rparr> 0)
    = Inr [[(''A'', 37500)], [(''A'', 17500)], [(''A'', 17500)], [(''A'', 17500)]]"
  by (simp add: generate_vwap_slices_def generate_twap_slices_def slicing_window_def
      timedelta_hours_def py_int_def calculate_volume_multiplier_def hours_def
      slice_trades_def Let_def upt_numeral)

section \<open>Risk: historical VaR against historical Expected Shortfall\<close>







section \<open>Factors: winsorizing twice\<close>













section \<open>Covariance shrinkage towards constant correlation\<close>

lemma sum_list_concat_map:
  fixes xss :: "real list list"
  shows "sum_list (concat xss) = sum_list (map sum_list xss)"
  by (induction xss) simp_all

lemma triu_indices_sum:
  fixes f :: "nat \<Rightarrow> nat \<Rightarrow> real"
  shows "sum_list (map (\<lambda>(i, j). f i j) (triu_indices n))
         = (\<Sum>i = 0..<n. \<Sum>j = i + 1..<n. f i j)"
proof -
  have "sum_list (map (\<lambda>(i, j). f i j) (triu_indices n))
        = sum_list (map (\<lambda>i. sum_list (map (\<lambda>j. f i j) [i + 1..<n])) [0..<n])"
    by (simp add: triu_indices_def map_concat sum_list_concat_map comp_def)
  also have "\<dots> = (\<Sum>i = 0..<n. \<Sum>j = i + 1..<n. f i j)"
    by (simp add: interv_sum_list_conv_sum_set_nat)
  finally show ?thesis .
qed

lemma triu_indices_bounds: "(i, j) \<in> set (triu_indices n) \<Longrightarrow> i < j \<and> j < n"
  by (auto simp: triu_indices_def)

lemma gauss_below: "2 * real (\<Sum>i = 0..<n. i) = real n * (real n - 1)"
  by (induction n) (simp_all add: algebra_simps)

lemma length_triu_indices: "real (length (triu_indices n)) = real n * (real n - 1) / 2"
proof -
  have "length (triu_indices n) = (\<Sum>i = 0..<n. n - Suc i)"
    by (simp add: triu_indices_def length_concat comp_def interv_sum_list_conv_sum_set_nat)
  also have "\<dots> = (\<Sum>i = 0..<n. i)"
    using sum.atLeastLessThan_rev [of "\<lambda>i. i" 0 n] by simp
  finally show ?thesis using gauss_below [of n] by simp
qed

lemma mat_binop_nth:
  "i < length A \<Longrightarrow> i < length B \<Longrightarrow> j < length (A ! i) \<Longrightarrow> j < length (B ! i) \<Longrightarrow>
   mat_binop f A B ! i ! j = f (A ! i ! j) (B ! i ! j)"
  by (simp add: mat_binop_def)

lemma mat_binop_length: "length (mat_binop f A B) = min (length A) (length B)"
  by (simp add: mat_binop_def)

lemma mat_binop_row_length:
  "i < length A \<Longrightarrow> i < length B \<Longrightarrow>
   length (mat_binop f A B ! i) = min (length (A ! i)) (length (B ! i))"
  by (simp add: mat_binop_def)

lemma apply_shrinkage_entries:
  assumes square: "\<forall>row\<in>set C. length row = length C"
      and pos: "\<forall>i<length C. 0 < C ! i ! i"
  shows "length (apply_shrinkage C ''constant_correlation'') = length C"
    and "i < length C \<Longrightarrow> length (apply_shrinkage C ''constant_correlation'' ! i) = length C"
    and "i < length C \<Longrightarrow> j < length C \<Longrightarrow>
         apply_shrinkage C ''constant_correlation'' ! i ! j
         = (1 - 3 / 10) * C ! i ! j + 3 / 10 * spec_target C i j"
proof -
  define n where "n = length C"
  define sd where "sd = map sqrt (np_diag C)"
  define Om where "Om = np_outer sd sd"
  define corr where "corr = mat_binop (/) C Om"
  define rho where "rho = np_mean (map (\<lambda>(i, j). corr ! i ! j) (triu_indices n))"
  define T where "T = fill_diagonal (np_full n rho) 1"
  define TC where "TC = mat_binop (*) T Om"
  have S: "apply_shrinkage C ''constant_correlation''
           = mat_binop (+) (mat_scale (1 - 3 / 10) C) (mat_scale (3 / 10) TC)"
    by (simp add: apply_shrinkage_def Let_def TC_def T_def rho_def corr_def Om_def sd_def n_def)
  have row: "length (C ! i) = n" if "i < n" for i
    using square that by (simp add: n_def)
  have sd_len: "length sd = n" by (simp add: sd_def np_diag_def n_def)
  have sd_nth: "sd ! i = sqrt (C ! i ! i)" if "i < n" for i
    using that by (simp add: sd_def np_diag_def n_def)
  have Om_len: "length Om = n" by (simp add: Om_def np_outer_def sd_len)
  have Om_row: "length (Om ! i) = n" if "i < n" for i
    using that by (simp add: Om_def np_outer_def sd_len)
  have Om_nth: "Om ! i ! j = sqrt (C ! i ! i) * sqrt (C ! j ! j)" if "i < n" "j < n" for i j
    using that by (simp add: Om_def np_outer_def sd_len sd_nth)
  have corr_nth: "corr ! i ! j = C ! i ! j / (sqrt (C ! i ! i) * sqrt (C ! j ! j))"
    if "i < n" "j < n" for i j
    unfolding corr_def using that
    by (subst mat_binop_nth) (simp_all add: Om_len Om_row row Om_nth n_def [symmetric])
  have corr_list: "map (\<lambda>(i, j). corr ! i ! j) (triu_indices n)
        = map (\<lambda>(i, j). C ! i ! j / (sqrt (C ! i ! i) * sqrt (C ! j ! j))) (triu_indices n)"
  proof (rule map_cong [OF refl])
    fix p assume "p \<in> set (triu_indices n)"
    moreover obtain i j where p: "p = (i, j)" by (cases p)
    ultimately have "i < j" "j < n"
      using triu_indices_bounds [of i j n] by simp_all
    with p
    show "(case p of (i, j) \<Rightarrow> corr ! i ! j)
               = (case p of (i, j) \<Rightarrow> C ! i ! j / (sqrt (C ! i ! i) * sqrt (C ! j ! j)))"
      by (simp add: corr_nth)
  qed
  have "rho = sum_list (map (\<lambda>(i, j). C ! i ! j / (sqrt (C ! i ! i) * sqrt (C ! j ! j)))
                            (triu_indices n))
              / real (length (triu_indices n))"
    by (simp only: rho_def np_mean_def corr_list length_map)
  then have rho: "rho = spec_average_correlation C"
    by (simp only: triu_indices_sum length_triu_indices spec_average_correlation_def n_def)
  have T_len: "length T = n" by (simp add: T_def fill_diagonal_def np_full_def)
  have T_row: "length (T ! i) = n" if "i < n" for i
    using that by (simp add: T_def fill_diagonal_def np_full_def)
  have T_nth: "T ! i ! j = (if i = j then 1 else rho)" if "i < n" "j < n" for i j
    using that by (simp add: T_def fill_diagonal_def np_full_def nth_list_update)
  have TC_len: "length TC = n" by (simp add: TC_def mat_binop_length T_len Om_len)
  have TC_row: "length (TC ! i) = n" if "i < n" for i
    using that by (simp add: TC_def mat_binop_row_length T_len Om_len T_row Om_row)
  have TC_nth: "TC ! i ! j = spec_target C i j" if "i < n" "j < n" for i j
  proof -
    have "TC ! i ! j = T ! i ! j * Om ! i ! j"
      unfolding TC_def using that
      by (intro mat_binop_nth) (simp_all add: T_len Om_len T_row Om_row)
    moreover have "0 < C ! i ! i" using pos that by (simp add: n_def)
    ultimately show ?thesis
      using that by (auto simp: T_nth Om_nth spec_target_def rho)
  qed
  show "length (apply_shrinkage C ''constant_correlation'') = length C"
    by (simp add: S mat_binop_length mat_scale_def TC_len n_def [symmetric])
  show "length (apply_shrinkage C ''constant_correlation'' ! i) = length C" if "i < length C"
    using that
    by (simp add: S mat_binop_row_length mat_scale_def TC_len TC_row row n_def [symmetric])
  show "apply_shrinkage C ''constant_correlation'' ! i ! j
         = (1 - 3 / 10) * C ! i ! j + 3 / 10 * spec_target C i j"
    if "i < length C" "j < length C"
  proof -
    from that have i: "i < n" and j: "j < n" by (simp_all add: n_def)
    have "mat_binop (+) (mat_scale (1 - 3 / 10) C) (mat_scale (3 / 10) TC) ! i ! j
          = mat_scale (1 - 3 / 10) C ! i ! j + mat_scale (3 / 10) TC ! i ! j"
      using i j
      by (intro mat_binop_nth) (simp_all add: mat_scale_def TC_len TC_row row n_def [symmetric])
    also have "\<dots> = (1 - 3 / 10) * C ! i ! j + 3 / 10 * TC ! i ! j"
      using i j by (simp add: mat_scale_def TC_len TC_row row n_def [symmetric])
    finally show ?thesis using i j by (simp add: S TC_nth)
  qed
qed

lemma spec_target_sym: "spec_target C i j = spec_target C j i"
  by (simp add: spec_target_def mult.commute)

text \<open>
  Claim C8. For every symmetric (square) covariance matrix with strictly positive
  diagonal, the shrinkage step returns, entry by entry, \<open>(1 - 0.3) * sample + 0.3 * target\<close>,
  where the target has the variances on the diagonal and the single average
  off-diagonal correlation, rescaled by the standard deviations, elsewhere; the result
  has the shape of the input and is symmetric. (Exact real arithmetic.)
\<close>

theorem C8_shrinkage_blend:
  assumes square: "\<forall>row\<in>set C. length row = length C"
      and sym: "\<forall>i<length C. \<forall>j<length C. C ! i ! j = C ! j ! i"
      and pos: "\<forall>i<length C. 0 < C ! i ! i"
  shows "length (apply_shrinkage C ''constant_correlation'') = length C
       \<and> (\<forall>i<length C. length (apply_shrinkage C ''constant_correlation'' ! i) = length C)
       \<and> (\<forall>i<length C. \<forall>j<length C.
            apply_shrinkage C ''constant_correlation'' ! i ! j
            = (1 - 3 / 10) * C ! i ! j + 3 / 10 * spec_target C i j)
       \<and> (\<forall>i<length C. \<forall>j<length C.
            apply_shrinkage C ''constant_correlation'' ! i ! j
            = apply_shrinkage C ''constant_correlation'' ! j ! i)"
proof -
  note e = apply_shrinkage_entries [OF square pos]
  have "apply_shrinkage C ''constant_correlation'' ! i ! j
        = apply_shrinkage C ''constant_correlation'' ! j ! i"
    if "i < length C" "j < length C" for i j
    using that sym by (simp add: e(3) spec_target_sym [of C i j])
  with e show ?thesis by blast
qed

theorem C8_witness:
  "length (apply_shrinkage [[1, 1, 0], [1, 4, 2], [0, 2, 9]] ''constant_correlation'') = 3
   \<and> apply_shrinkage [[1, 1, 0], [1, 4, 2], [0, 2, 9]] ''constant_correlation'' ! 1 ! 1
       = (1 - 3 / 10) * 4 + 3 / 10 * spec_target [[1, 1, 0], [1, 4, 2], [0, 2, 9]] 1 1
   \<and> apply_shrinkage [[1, 1, 0], [1, 4, 2], [0, 2, 9]] ''constant_correlation'' ! 1 ! 2
       = (1 - 3 / 10) * 2 + 3 / 10 * spec_target [[1, 1, 0], [1, 4, 2], [0, 2, 9]] 1 2
   \<and> apply_shrinkage [[1, 1, 0], [1, 4, 2], [0, 2, 9]] ''constant_correlation'' ! 1 ! 2
       = apply_shrinkage [[1, 1, 0], [1, 4, 2], [0, 2, 9]] ''constant_correlation'' ! 2 ! 1
   \<and> apply_shrinkage [[1, 1, 0], [1, 4, 2], [0, 2, 9]] ''constant_correlation'' ! 0 ! 2
       = apply_shrinkage [[1, 1, 0], [1, 4, 2], [0, 2, 9]] ''constant_correlation'' ! 2 ! 0"
proof -
  let ?C = "[[1, 1, 0], [1, 4, 2], [0, 2, 9 :: real]]"
  have h1: "\<forall>row\<in>set ?C. length row = length ?C" by simp
  have h2: "\<forall>i<length ?C. \<forall>j<length ?C. ?C ! i ! j = ?C ! j ! i"
    by (simp add: less_Suc_eq all_conj_distrib)
  have h3: "\<forall>i<length ?C. 0 < ?C ! i ! i"
    by (simp add: less_Suc_eq all_conj_distrib)
  note r = C8_shrinkage_blend [OF h1 h2 h3]
  let ?S = "apply_shrinkage ?C ''constant_correlation''"
  from r have len: "length ?S = length ?C" by blast
  from r have entry: "\<forall>i<length ?C. \<forall>j<length ?C.
      ?S ! i ! j = (1 - 3 / 10) * ?C ! i ! j + 3 / 10 * spec_target ?C i j" by blast
  from r have symm: "\<forall>i<length ?C. \<forall>j<length ?C. ?S ! i ! j = ?S ! j ! i" by blast
  have e11: "?S ! 1 ! 1 = (1 - 3 / 10) * 4 + 3 / 10 * spec_target ?C 1 1"
    using entry [rule_format, of 1 1] by simp
  have e12: "?S ! 1 ! 2 = (1 - 3 / 10) * 2 + 3 / 10 * spec_target ?C 1 2"
    using entry [rule_format, of 1 2] by simp
  have s12: "?S ! 1 ! 2 = ?S ! 2 ! 1"
    using symm [rule_format, of 1 2] by simp
  have s02: "?S ! 0 ! 2 = ?S ! 2 ! 0"
    using symm [rule_format, of 0 2] by simp
  from len e11 e12 s12 s02 show ?thesis by simp
qed

section \<open>Factors: an unknown factor name\<close>

lemma compute_factor_unknown:
  "factor_name \<notin> set supported_factors \<Longrightarrow>
   compute_factor rt data factor_name config = Inl (ValueError (''Unknown factor: '' @ factor_name))"
  by (simp add: compute_factor_def supported_factors_def)

lemma compute_factors_loop_unknown:
  assumes "factor_name \<notin> set supported_factors"
  shows "(factor_name, config) \<in> set factors \<Longrightarrow>
         isl (compute_factors_loop rt data factors acc)"
proof (induction factors arbitrary: acc)
  case Nil
  then show ?case by simp
next
  case (Cons a factors)
  obtain n c where a: "a = (n, c)" by (cases a)
  show ?case
  proof (cases "compute_factor rt data n c")
    case (Inl e)
    with a show ?thesis by simp
  next
    case (Inr sig)
    with compute_factor_unknown [OF assms, of rt data] have "n \<noteq> factor_name" by auto
    with Cons.prems a have "(factor_name, config) \<in> set factors" by simp
    from Cons.IH [OF this] Inr a show ?thesis by simp
  qed
qed

lemma compute_factors_loop_first_unknown:
  assumes "factor_name \<notin> set supported_factors"
  shows "\<forall>(n, c)\<in>set before. \<not> isl (compute_factor rt data n c) \<Longrightarrow>
         compute_factors_loop rt data (before @ (factor_name, config) # after) acc
         = Inl (ValueError (''Unknown factor: '' @ factor_name))"
proof (induction before arbitrary: acc)
  case Nil
  show ?case by (simp add: compute_factor_unknown [OF assms])
next
  case (Cons a before)
  obtain n c where a: "a = (n, c)" by (cases a)
  with Cons.prems obtain sig where "compute_factor rt data n c = Inr sig"
    by (cases "compute_factor rt data n c") auto
  moreover from Cons.prems have "\<forall>(n, c)\<in>set before. \<not> isl (compute_factor rt data n c)" by simp
  ultimately show ?case using Cons.IH a by simp
qed

text \<open>
  Claim C10. For every factor name outside the supported set, \<open>compute_factor\<close> raises
  \<open>ValueError\<close> with the message \<open>Unknown factor: <name>\<close>; \<open>compute_signals\<close> never
  succeeds on a recipe that contains such a name, and when the factors listed before it
  compute, the error the task ends with is exactly that \<open>ValueError\<close>: nothing is
  defaulted.
\<close>

theorem C10_unknown_factor_raises:
  assumes "factor_name \<notin> set supported_factors"
  shows "compute_factor rt data factor_name config
           = Inl (ValueError (''Unknown factor: '' @ factor_name))
       \<and> ((factor_name, config) \<in> set factors \<longrightarrow> isl (compute_signals rt finish data factors))
       \<and> ((\<forall>(n, c)\<in>set before. \<not> isl (compute_factor rt data n c)) \<longrightarrow>
            compute_signals rt finish data (before @ (factor_name, config) # after)
            = Inl (ValueError (''Unknown factor: '' @ factor_name)))"
proof (intro conjI impI)
  show "compute_factor rt data factor_name config
           = Inl (ValueError (''Unknown factor: '' @ factor_name))"
    using assms by (rule compute_factor_unknown)
next
  assume "(factor_name, config) \<in> set factors"
  from compute_factors_loop_unknown [OF assms this, of rt data "[]"]
  show "isl (compute_signals rt finish data factors)"
    by (auto simp: compute_signals_def split: sum.splits)
next
  assume "\<forall>(n, c)\<in>set before. \<not> isl (compute_factor rt data n c)"
  from compute_factors_loop_first_unknown [OF assms this, of config after "[]"]
  show "compute_signals rt finish data (before @ (factor_name, config) # after)
            = Inl (ValueError (''Unknown factor: '' @ factor_name))"
    by (simp add: compute_signals_def)
qed

theorem C10_witness:
  "''carry'' \<notin> set supported_factors
   \<and> compute_factor
       \<lparr>compute_momentum_factor = (\<lambda>_ _. Inr [1 :: real]),
         compute_value_factor = (\<lambda>_ _. Inr [2]), compute_quality_factor = (\<lambda>_ _. Inr [3]),
         compute_growth_factor = (\<lambda>_ _. Inr [4]), compute_low_vol_factor = (\<lambda>_ _. Inr [5]),
         compute_size_factor = (\<lambda>_ _. Inr [6]), compute_esg_factor = (\<lambda>_ _. Inr [7])\<rparr>
       () ''carry'' () = Inl (ValueError ''Unknown factor: carry'')
   \<and> isl (compute_signals
       \<lparr>compute_momentum_factor = (\<lambda>_ _. Inr [1 :: real]),
         compute_value_factor = (\<lambda>_ _. Inr [2]), compute_quality_factor = (\<lambda>_ _. Inr [3]),
         compute_growth_factor = (\<lambda>_ _. Inr [4]), compute_low_vol_factor = (\<lambda>_ _. Inr [5]),
         compute_size_factor = (\<lambda>_ _. Inr [6]), compute_esg_factor = (\<lambda>_ _. Inr [7])\<rparr>
       Inr () [(''momentum'', ()), (''carry'', ()), (''value'', ())])
   \<and> compute_signals
       \<lparr>compute_momentum_factor = (\<lambda>_ _. Inr [1 :: real]),
         compute_value_factor = (\<lambda>_ _. Inr [2]), compute_quality_factor = (\<lambda>_ _. Inr [3]),
         compute_growth_factor = (\<lambda>_ _. Inr [4]), compute_low_vol_factor = (\<lambda>_ _. Inr [5]),
         compute_size_factor = (\<lambda>_ _. Inr [6]), compute_esg_factor = (\<lambda>_ _. Inr [7])\<rparr>
       Inr () [(''momentum'', ()), (''carry'', ()), (''value'', ())]
     = Inl (ValueError ''Unknown factor: carry'')"
proof -
  let ?rt = "\<lparr>compute_momentum_factor = (\<lambda>_ _. Inr [1 :: real]),
         compute_value_factor = (\<lambda>_ _. Inr [2]), compute_quality_factor = (\<lambda>_ _. Inr [3]),
         compute_growth_factor = (\<lambda>_ _. Inr [4]), compute_low_vol_factor = (\<lambda>_ _. Inr [5]),
         compute_size_factor = (\<lambda>_ _. Inr [6]), compute_esg_factor = (\<lambda>_ _. Inr [7])\<rparr>"
  have h: "''carry'' \<notin> set supported_factors" by (simp add: supported_factors_def)
  have m: "(''carry'', ()) \<in> set [(''momentum'', ()), (''carry'', ()), (''value'', ())]" by simp
  have b: "\<forall>(n, c)\<in>set [(''momentum'', ())]. \<not> isl (compute_factor ?rt () n c)"
    by (simp add: compute_factor_def)
  from C10_unknown_factor_raises [OF h, of ?rt "()" "()"
         "[(''momentum'', ()), (''carry'', ()), (''value'', ())]" Inr
         "[(''momentum'', ())]" "[(''value'', ())]"] h m b
  show ?thesis by simp
qed

end
